theory Spec2Isabelle
  imports Main
begin

section \<open>Errors\<close>

text \<open>
  The service throws \<open>BadRequestError\<close>, \<open>UnauthorizedError\<close> and \<open>ConflictError\<close>,
  each with a message. Two more failures are not thrown by name but happen in the code:
  a JavaScript \<open>TypeError\<close> (a property read on \<open>undefined\<close> or \<open>null\<close>, or a
  library call rejecting an argument that is not a string), and the store rejecting an
  INSERT or UPDATE: on a unique index, or for a value too long for its column.
\<close>

datatype error =
    BadRequestError string
  | UnauthorizedError string
  | ConflictError string
  | TypeError
  | UniqueViolation
  | StringTooLong

text \<open>The error kinds of the specification, as the values the code throws for them.\<close>

abbreviation AccountExists :: error where
  "AccountExists \<equiv> ConflictError ''An account with this email already exists.''"

abbreviation InvalidCredentials :: error where
  "InvalidCredentials \<equiv> UnauthorizedError ''Invalid email or password.''"

abbreviation Unauthorized :: error where
  "Unauthorized \<equiv> UnauthorizedError ''Refresh token required.''"

abbreviation InvalidToken :: error where
  "InvalidToken \<equiv> UnauthorizedError ''Invalid refresh token.''"

abbreviation TokenRevoked :: error where
  "TokenRevoked \<equiv> UnauthorizedError ''Refresh token has been revoked.''"

abbreviation TokenExpired :: error where
  "TokenExpired \<equiv> UnauthorizedError ''Refresh token has expired.''"

abbreviation NotFound :: error where
  "NotFound \<equiv> BadRequestError ''User not found.''"

abbreviation CurrentPasswordIncorrect :: error where
  "CurrentPasswordIncorrect \<equiv> UnauthorizedError ''Current password is incorrect.''"

section \<open>The store\<close>

text \<open>
  The two tables of \<open>auth.repository.js\<close>. A nullable column is an \<open>option\<close>
  (\<open>None\<close> is SQL NULL). Row ids are generated by the store; timestamps are
  milliseconds since the epoch. The column \<open>id\<close> is written \<open>uid\<close> for a user and
  \<open>rtid\<close> for a refresh token. A \<open>string\<close> is the text in UTF-8: a \<open>char\<close> is
  one byte of it.
\<close>

record user =
  uid :: nat
  email :: string
  password_hash :: "string option"
  full_name :: string
  phone :: "string option"
  role :: string
  tenant_id :: "nat option"
  is_verified :: bool
  google_id :: "string option"
  avatar_url :: "string option"
  created_at :: int

record refresh_token =
  rtid :: nat
  user_id :: nat
  token_hash :: string
  expires_at :: int
  is_revoked :: bool

record store =
  users :: "user list"
  refresh_tokens :: "refresh_token list"
  user_seq :: nat
  token_seq :: nat

section \<open>Collaborators\<close>

text \<open>
  What the code uses and does not define: \<open>String.prototype.toLowerCase\<close> of the
  runtime (it lowercases every cased letter, not the ASCII ones alone), the password
  hasher (\<open>argon2\<close>), the token digest \<open>hashToken\<close> and the duration parser of
  \<open>utils/helpers.js\<close>, the signer of access tokens (\<open>jwt.sign\<close>), Google's verifier of
  identity assertions, and the configuration. They are parameters of the model, and
  every theorem holds for whatever they are. \<open>verifyIdToken\<close> gives \<open>None\<close> when the
  verifier throws, \<open>Some None\<close> when the ticket has no payload.
\<close>

record payload =
  sub :: string
  payload_email :: "string option"
  name :: "string option"
  picture :: "string option"

record deps =
  toLowerCase :: "string \<Rightarrow> string"
  argon2_hash :: "string \<Rightarrow> string \<Rightarrow> string"
  argon2_verify :: "string \<Rightarrow> string \<Rightarrow> error + bool"
  hashToken :: "string \<Rightarrow> string"
  jwt_sign :: "nat \<times> string \<times> string \<times> nat option \<Rightarrow> string"
  verifyIdToken :: "string \<Rightarrow> string \<Rightarrow> payload option option"
  google_clientId :: "string option"
  refreshExpiresIn :: int

text \<open>
  What one call reads from the outside world: the clock, the salt \<open>argon2.hash\<close> draws
  and the token \<open>generateToken(32)\<close> draws.
\<close>

record env =
  now :: int
  rand_salt :: string
  rand_token :: string

section \<open>JavaScript values\<close>

text \<open>
  A value that may be \<open>undefined\<close> or \<open>null\<close> is an \<open>option\<close>. \<open>truthy\<close> is the
  test of \<open>if (x)\<close>, \<open>!x\<close> and \<open>x || y\<close> on such a string: \<open>undefined\<close>, \<open>null\<close>
  and the empty string are falsy.
\<close>

definition truthy :: "string option \<Rightarrow> bool" where
  "truthy x = (case x of None \<Rightarrow> False | Some s \<Rightarrow> s \<noteq> [])"

text \<open>\<open>a || b\<close> on strings that may be absent.\<close>

definition or_else :: "string option \<Rightarrow> string option \<Rightarrow> string option" where
  "or_else a b = (if truthy a then a else b)"

text \<open>
  \<open>argon2.verify(digest, plain)\<close> parses the digest first and rejects with a
  \<open>TypeError\<close> when it is not a string (\<open>null\<close> is what the store returns for an absent
  \<open>password_hash\<close>); it rejects a password that is not a string in the same way.
\<close>

definition argon2_verify_js ::
  "deps \<Rightarrow> string option \<Rightarrow> string option \<Rightarrow> error + bool" where
  "argon2_verify_js d digest plain =
     (case digest of
        None \<Rightarrow> Inl TypeError
      | Some h \<Rightarrow> (case plain of None \<Rightarrow> Inl TypeError | Some p \<Rightarrow> argon2_verify d h p))"

section \<open>auth.repository.js\<close>

text \<open>
  \<open>findByEmail\<close> calls \<open>email.toLowerCase()\<close> before the query, so an \<open>undefined\<close>
  argument is a \<open>TypeError\<close>. \<open>result.rows[0] || null\<close> is the first matching row.
\<close>

definition findByEmail :: "deps \<Rightarrow> store \<Rightarrow> string option \<Rightarrow> error + user option" where
  "findByEmail d st e =
     (case e of
        None \<Rightarrow> Inl TypeError
      | Some a \<Rightarrow> Inr (find (\<lambda>u. email u = toLowerCase d a) (users st)))"

definition findById :: "store \<Rightarrow> nat \<Rightarrow> user option" where
  "findById st i = find (\<lambda>u. uid u = i) (users st)"

definition findByGoogleId :: "store \<Rightarrow> string \<Rightarrow> user option" where
  "findByGoogleId st g = find (\<lambda>u. google_id u = Some g) (users st)"

text \<open>
  \<open>findById\<close> does not select \<open>password_hash\<close>; no caller reads it from its result.
\<close>

text \<open>
  The unique indexes of the migrations: \<open>idx_users_phone\<close> (on \<open>phone\<close> where it is not
  NULL) and the UNIQUE of \<open>google_id\<close>. A row that would repeat a value another row
  holds is rejected. The uniqueness of \<open>email\<close> is declared with the table, which is not
  among the migrations at hand; every caller of \<open>create\<close> looks the email up first and
  creates only when it is not found.
\<close>

definition phone_taken :: "user list \<Rightarrow> string option \<Rightarrow> bool" where
  "phone_taken us p = (case p of None \<Rightarrow> False | Some x \<Rightarrow> \<exists>u \<in> set us. phone u = Some x)"

definition google_id_taken :: "user list \<Rightarrow> string option \<Rightarrow> bool" where
  "google_id_taken us g =
     (case g of None \<Rightarrow> False | Some x \<Rightarrow> \<exists>u \<in> set us. google_id u = Some x)"

text \<open>
  The column widths of migration 004: \<open>google_id VARCHAR(255)\<close> and
  \<open>avatar_url VARCHAR(500)\<close>. The store counts characters, not bytes: in UTF-8 every
  byte but a continuation byte (\<open>10xxxxxx\<close>) starts one. A value longer than the column
  is rejected, unless what exceeds the width is spaces only: then the value is cut to the
  width. The value is fitted to the column before any row is looked at. The widths of the
  other columns are declared with the tables, which are not among the migrations at
  hand.
\<close>

definition is_continuation :: "char \<Rightarrow> bool" where
  "is_continuation c = (128 \<le> (of_char c :: nat) \<and> (of_char c :: nat) < 192)"

definition char_count :: "string \<Rightarrow> nat" where
  "char_count s = length (filter (\<lambda>c. \<not> is_continuation c) s)"

fun take_chars :: "nat \<Rightarrow> string \<Rightarrow> string" where
  "take_chars n [] = []"
| "take_chars n (c # cs) =
     (if is_continuation c then c # take_chars n cs
      else (case n of 0 \<Rightarrow> [] | Suc m \<Rightarrow> c # take_chars m cs))"

definition varchar :: "nat \<Rightarrow> string \<Rightarrow> error + string" where
  "varchar n s =
     (if char_count s \<le> n then Inr s
      else if filter (\<lambda>c. c \<noteq> CHR '' '') (drop (length (take_chars n s)) s) = []
           then Inr (take_chars n s)
           else Inl StringTooLong)"


definition varchar_opt :: "nat \<Rightarrow> string option \<Rightarrow> error + string option" where
  "varchar_opt n x =
     (case x of
        None \<Rightarrow> Inr None
      | Some s \<Rightarrow> (case varchar n s of Inl err \<Rightarrow> Inl err | Inr v \<Rightarrow> Inr (Some v)))"

text \<open>
  \<open>create\<close>: the INSERT. The email is stored in lowercase, \<open>phone || null\<close> stores no
  empty phone, and \<open>is_verified\<close> is \<open>role === 'super_admin' || !!googleId\<close>.
\<close>

definition create ::
  "deps \<Rightarrow> store \<Rightarrow> int \<Rightarrow> string \<Rightarrow> string option \<Rightarrow> string \<Rightarrow> string option \<Rightarrow> string \<Rightarrow>
   nat option \<Rightarrow> string option \<Rightarrow> string option \<Rightarrow> error + user \<times> store" where
  "create d st t e passwordHash fullName ph r tenantId googleId avatarUrl =
     (case varchar_opt 255 googleId of
        Inl err \<Rightarrow> Inl err
      | Inr g \<Rightarrow>
          (case varchar_opt 500 avatarUrl of
             Inl err \<Rightarrow> Inl err
           | Inr a \<Rightarrow>
               let row = \<lparr> uid = user_seq st, email = toLowerCase d e,
                            password_hash = passwordHash, full_name = fullName,
                            phone = or_else ph None, role = r, tenant_id = tenantId,
                            is_verified = (r = ''super_admin'' \<or> truthy googleId),
                            google_id = g, avatar_url = a, created_at = t \<rparr>
               in if phone_taken (users st) (phone row) \<or> google_id_taken (users st) g
                  then Inl UniqueViolation
                  else Inr (row, st\<lparr> users := users st @ [row],
                                      user_seq := Suc (user_seq st) \<rparr>)))"

text \<open>
  The \<open>data\<close> argument of \<open>update\<close>: a field that is \<open>undefined\<close> (\<open>None\<close>) is left
  out of the UPDATE; a nullable column can be set to \<open>null\<close> (\<open>Some None\<close>).
\<close>

record update_data =
  upd_fullName :: "string option"
  upd_phone :: "string option option"
  upd_isVerified :: "bool option"
  upd_tenantId :: "nat option option"
  upd_googleId :: "string option"
  upd_avatarUrl :: "string option option"

definition no_fields :: "update_data \<Rightarrow> bool" where
  "no_fields data =
     (upd_fullName data = None \<and> upd_phone data = None \<and> upd_isVerified data = None \<and>
      upd_tenantId data = None \<and> upd_googleId data = None \<and> upd_avatarUrl data = None)"

definition set_fields :: "update_data \<Rightarrow> user \<Rightarrow> user" where
  "set_fields data u =
     u\<lparr> full_name := (case upd_fullName data of None \<Rightarrow> full_name u | Some v \<Rightarrow> v),
        phone := (case upd_phone data of None \<Rightarrow> phone u | Some v \<Rightarrow> v),
        is_verified := (case upd_isVerified data of None \<Rightarrow> is_verified u | Some v \<Rightarrow> v),
        tenant_id := (case upd_tenantId data of None \<Rightarrow> tenant_id u | Some v \<Rightarrow> v),
        google_id := (case upd_googleId data of None \<Rightarrow> google_id u | Some v \<Rightarrow> Some v),
        avatar_url := (case upd_avatarUrl data of None \<Rightarrow> avatar_url u | Some v \<Rightarrow> v) \<rparr>"

text \<open>The values of an UPDATE, fitted to the columns of migration 004.\<close>

definition fit_columns :: "update_data \<Rightarrow> error + update_data" where
  "fit_columns data =
     (case varchar_opt 255 (upd_googleId data) of
        Inl err \<Rightarrow> Inl err
      | Inr g \<Rightarrow>
          (case upd_avatarUrl data of
             None \<Rightarrow> Inr (data\<lparr> upd_googleId := g \<rparr>)
           | Some v \<Rightarrow>
               (case varchar_opt 500 v of
                  Inl err \<Rightarrow> Inl err
                | Inr a \<Rightarrow> Inr (data\<lparr> upd_googleId := g, upd_avatarUrl := Some a \<rparr>))))"

text \<open>
  \<open>update\<close>: \<open>null\<close> when no field is given; else the UPDATE of the rows with this id,
  returning the first of them (\<open>undefined\<close>, here \<open>None\<close> too, when there is none).
\<close>

definition update :: "store \<Rightarrow> nat \<Rightarrow> update_data \<Rightarrow> error + user option \<times> store" where
  "update st i data =
     (if no_fields data then Inr (None, st)
      else
        (case fit_columns data of
           Inl err \<Rightarrow> Inl err
         | Inr fitted \<Rightarrow>
             if \<not> (\<exists>u \<in> set (users st). uid u = i) then Inr (None, st)
             else
               let others = filter (\<lambda>u. uid u \<noteq> i) (users st) in
               if (case upd_phone fitted of None \<Rightarrow> False | Some p \<Rightarrow> phone_taken others p)
                  \<or> google_id_taken others (upd_googleId fitted)
               then Inl UniqueViolation
               else
                 let rows = map (\<lambda>u. if uid u = i then set_fields fitted u else u) (users st)
                 in Inr (find (\<lambda>u. uid u = i) rows, st\<lparr> users := rows \<rparr>)))"

text \<open>
  \<open>createRefreshToken\<close>: the INSERT names \<open>user_id\<close>, \<open>token_hash\<close> and \<open>expires_at\<close>;
  the store gives the id and the default of \<open>is_revoked\<close>, false.
\<close>

definition createRefreshToken :: "store \<Rightarrow> nat \<Rightarrow> string \<Rightarrow> int \<Rightarrow> store" where
  "createRefreshToken st userId tokenHash expiresAt =
     st\<lparr> refresh_tokens := refresh_tokens st @
           [\<lparr> rtid = token_seq st, user_id = userId, token_hash = tokenHash,
              expires_at = expiresAt, is_revoked = False \<rparr>],
         token_seq := Suc (token_seq st) \<rparr>"

text \<open>
  \<open>findRefreshToken\<close>: the first row of \<open>refresh_tokens JOIN users ON u.id = rt.user_id\<close>
  with this hash, as the pair of the token row and its owner's row.
\<close>

definition findRefreshToken :: "store \<Rightarrow> string \<Rightarrow> (refresh_token \<times> user) option" where
  "findRefreshToken st tokenHash =
     (case concat (map
        (\<lambda>rt. map (\<lambda>u. (rt, u)) (filter (\<lambda>u. uid u = user_id rt) (users st)))
        (filter (\<lambda>rt. token_hash rt = tokenHash) (refresh_tokens st))) of
        [] \<Rightarrow> None
      | row # _ \<Rightarrow> Some row)"


definition revokeAllUserTokens :: "store \<Rightarrow> nat \<Rightarrow> store" where
  "revokeAllUserTokens st userId =
     st\<lparr> refresh_tokens :=
           map (\<lambda>rt. if user_id rt = userId then rt\<lparr> is_revoked := True \<rparr> else rt)
             (refresh_tokens st) \<rparr>"

definition updatePassword :: "store \<Rightarrow> nat \<Rightarrow> string \<Rightarrow> store" where
  "updatePassword st i passwordHash =
     st\<lparr> users :=
           map (\<lambda>u. if uid u = i then u\<lparr> password_hash := Some passwordHash \<rparr> else u)
             (users st) \<rparr>"

section \<open>auth.service.js\<close>

text \<open>
  Every operation takes the collaborators, what it reads from the outside world and the
  store, and returns its result, or the error it throws, with the store it leaves. In
  this code every throw comes before the first write of the call, so a call that throws
  leaves the store as it was.
\<close>

record public_user =
  pu_id :: nat
  pu_email :: string
  pu_fullName :: string
  pu_role :: string

record session_user = public_user +
  su_tenantId :: "nat option"

record login_user = session_user +
  lu_avatarUrl :: "string option"

record login_result =
  lr_user :: login_user
  accessToken :: string
  refreshToken :: string
  expiresAt :: int

record refresh_result =
  rr_accessToken :: string
  rr_user :: session_user

text \<open>
  \<open>register\<close>. The route validates the body first, so the email, the password and the
  name are strings; \<open>role = 'customer'\<close> is the default of the parameter.
\<close>

definition register ::
  "deps \<Rightarrow> env \<Rightarrow> store \<Rightarrow> string \<Rightarrow> string \<Rightarrow> string \<Rightarrow> string option \<Rightarrow> string option \<Rightarrow>
   (error + public_user) \<times> store" where
  "register d e st em password fullName ph r =
     (case findByEmail d st (Some em) of
        Inl err \<Rightarrow> (Inl err, st)
      | Inr (Some existingUser) \<Rightarrow> (Inl AccountExists, st)
      | Inr None \<Rightarrow>
          let passwordHash = argon2_hash d (rand_salt e) password in
          (case create d st (now e) em (Some passwordHash) fullName ph
                  (case r of None \<Rightarrow> ''customer'' | Some x \<Rightarrow> x) None None None of
             Inl err \<Rightarrow> (Inl err, st)
           | Inr (u, st') \<Rightarrow>
               (Inr \<lparr> pu_id = uid u, pu_email = email u, pu_fullName = full_name u,
                      pu_role = role u \<rparr>, st')))"

definition generateAccessToken :: "deps \<Rightarrow> nat \<Rightarrow> string \<Rightarrow> string \<Rightarrow> nat option \<Rightarrow> string" where
  "generateAccessToken d i em r tenantId = jwt_sign d (i, em, r, tenantId)"

text \<open>\<open>generateRefreshToken\<close>: the token, its hash and its expiry.\<close>

definition generateRefreshToken :: "deps \<Rightarrow> env \<Rightarrow> string \<times> string \<times> int" where
  "generateRefreshToken d e =
     (rand_token e, hashToken d (rand_token e), now e + refreshExpiresIn d)"

text \<open>
  The object a caller passes to \<open>login\<close>: the service destructures \<open>email\<close> and
  \<open>password\<close> from it, the controller builds it from \<open>identifier\<close> and \<open>password\<close>. A
  key the object does not have reads as \<open>undefined\<close>.
\<close>

record credentials =
  cred_identifier :: "string option"
  cred_email :: "string option"
  cred_password :: string

definition session_of :: "user \<Rightarrow> login_user" where
  "session_of u =
     \<lparr> pu_id = uid u, pu_email = email u, pu_fullName = full_name u, pu_role = role u,
       su_tenantId = tenant_id u, lu_avatarUrl = avatar_url u \<rparr>"

definition login :: "deps \<Rightarrow> env \<Rightarrow> store \<Rightarrow> credentials \<Rightarrow> (error + login_result) \<times> store" where
  "login d e st args =
     (case findByEmail d st (cred_email args) of
        Inl err \<Rightarrow> (Inl err, st)
      | Inr None \<Rightarrow> (Inl InvalidCredentials, st)
      | Inr (Some u) \<Rightarrow>
          (case argon2_verify_js d (password_hash u) (Some (cred_password args)) of
             Inl err \<Rightarrow> (Inl err, st)
           | Inr isValid \<Rightarrow>
               if \<not> isValid then (Inl InvalidCredentials, st)
               else
                 let at = generateAccessToken d (uid u) (email u) (role u) (tenant_id u);
                     (rt, rtHash, ex) = generateRefreshToken d e
                 in (Inr \<lparr> lr_user = session_of u, accessToken = at, refreshToken = rt,
                            expiresAt = ex \<rparr>,
                     createRefreshToken st (uid u) rtHash ex)))"

text \<open>
  \<open>googleSignIn\<close>. The three ways to the user: found by Google id, found by email and
  linked, or created. \<open>link_data\<close> is the object the link passes to \<open>update\<close>:
  \<open>{ googleId, avatarUrl: picture || user.avatar_url, isVerified: true }\<close>.
  \<open>email.split('@')[0]\<close> is the email up to its first \<open>@\<close>.
\<close>

definition link_data :: "payload \<Rightarrow> user \<Rightarrow> update_data" where
  "link_data p u =
     \<lparr> upd_fullName = None, upd_phone = None, upd_isVerified = Some True,
       upd_tenantId = None, upd_googleId = Some (sub p),
       upd_avatarUrl = Some (or_else (picture p) (avatar_url u)) \<rparr>"

definition resolve_google_user ::
  "deps \<Rightarrow> env \<Rightarrow> store \<Rightarrow> payload \<Rightarrow> string \<Rightarrow> error + user \<times> store" where
  "resolve_google_user d e st p em =
     (case findByGoogleId st (sub p) of
        Some u \<Rightarrow> Inr (u, st)
      | None \<Rightarrow>
          (case findByEmail d st (Some em) of
             Inl err \<Rightarrow> Inl err
           | Inr (Some u) \<Rightarrow>
               (case update st (uid u) (link_data p u) of
                  Inl err \<Rightarrow> Inl err
                | Inr (None, st') \<Rightarrow> Inl TypeError
                | Inr (Some u', st') \<Rightarrow> Inr (u', st'))
           | Inr None \<Rightarrow>
               create d st (now e) em None
                 (case or_else (name p) (Some (takeWhile (\<lambda>c. c \<noteq> CHR ''@'') em)) of
                    None \<Rightarrow> [] | Some n \<Rightarrow> n)
                 None ''customer'' None (Some (sub p)) (or_else (picture p) None)))"

definition googleSignIn :: "deps \<Rightarrow> env \<Rightarrow> store \<Rightarrow> string \<Rightarrow> (error + login_result) \<times> store" where
  "googleSignIn d e st idToken =
     (case google_clientId d of
        None \<Rightarrow> (Inl (BadRequestError ''Google Sign-In is not configured.''), st)
      | Some clientId \<Rightarrow>
          if clientId = [] then (Inl (BadRequestError ''Google Sign-In is not configured.''), st)
          else
            (case verifyIdToken d idToken clientId of
               None \<Rightarrow> (Inl (UnauthorizedError ''Invalid Google token.''), st)
             | Some None \<Rightarrow> (Inl TypeError, st)
             | Some (Some p) \<Rightarrow>
                 (case payload_email p of
                    None \<Rightarrow>
                      (Inl (BadRequestError ''Google account does not have an email address.''), st)
                  | Some em \<Rightarrow>
                      if em = [] then
                        (Inl (BadRequestError ''Google account does not have an email address.''), st)
                      else
                        (case resolve_google_user d e st p em of
                           Inl err \<Rightarrow> (Inl err, st)
                         | Inr (u, st') \<Rightarrow>
                             let at = generateAccessToken d (uid u) (email u) (role u) (tenant_id u);
                                 (rt, rtHash, ex) = generateRefreshToken d e
                             in (Inr \<lparr> lr_user = session_of u, accessToken = at,
                                        refreshToken = rt, expiresAt = ex \<rparr>,
                                 createRefreshToken st' (uid u) rtHash ex)))))"

text \<open>
  \<open>refreshAccessToken\<close>: the checks in the order of the code. The expiry test is
  \<open>new Date(tokenData.expires_at) < new Date()\<close>. Nothing is written.
\<close>

definition refreshAccessToken ::
  "deps \<Rightarrow> env \<Rightarrow> store \<Rightarrow> string option \<Rightarrow> (error + refresh_result) \<times> store" where
  "refreshAccessToken d e st tok =
     (case tok of
        None \<Rightarrow> (Inl Unauthorized, st)
      | Some t \<Rightarrow>
          if t = [] then (Inl Unauthorized, st)
          else
            (case findRefreshToken st (hashToken d t) of
               None \<Rightarrow> (Inl InvalidToken, st)
             | Some (rt, u) \<Rightarrow>
                 if is_revoked rt then (Inl TokenRevoked, st)
                 else if expires_at rt < now e then (Inl TokenExpired, st)
                 else
                   (Inr \<lparr> rr_accessToken =
                            generateAccessToken d (user_id rt) (email u) (role u) (tenant_id u),
                          rr_user = \<lparr> pu_id = user_id rt, pu_email = email u,
                                      pu_fullName = full_name u, pu_role = role u,
                                      su_tenantId = tenant_id u \<rparr> \<rparr>, st)))"


definition logoutAll :: "store \<Rightarrow> nat \<Rightarrow> store" where
  "logoutAll st userId = revokeAllUserTokens st userId"

text \<open>
  \<open>changePassword\<close>. The user is loaded as
  \<open>findByEmail((await findById(userId)).email)\<close>: the \<open>.email\<close> is read before anything
  is tested, so a \<open>null\<close> from \<open>findById\<close> is a \<open>TypeError\<close>. \<open>currentPassword\<close> is
  optional in the request.
\<close>

definition changePassword ::
  "deps \<Rightarrow> env \<Rightarrow> store \<Rightarrow> nat \<Rightarrow> string option \<Rightarrow> string \<Rightarrow> (error + string) \<times> store" where
  "changePassword d e st userId currentPassword newPassword =
     (case findById st userId of
        None \<Rightarrow> (Inl TypeError, st)
      | Some u0 \<Rightarrow>
          (case findByEmail d st (Some (email u0)) of
             Inl err \<Rightarrow> (Inl err, st)
           | Inr None \<Rightarrow> (Inl NotFound, st)
           | Inr (Some u) \<Rightarrow>
               (case (if truthy (password_hash u)
                      then argon2_verify_js d (password_hash u) currentPassword
                      else Inr True) of
                  Inl err \<Rightarrow> (Inl err, st)
                | Inr isValid \<Rightarrow>
                    if \<not> isValid then (Inl CurrentPasswordIncorrect, st)
                    else
                      (Inr ''Password changed successfully.'',
                       updatePassword st userId (argon2_hash d (rand_salt e) newPassword)))))"

section \<open>auth.controller.js\<close>

text \<open>
  The handlers as far as they decide what the service is called with. The audit log, the
  cookie and the response body do not change the store of users and tokens.
\<close>

definition allowedRoles :: "string list" where
  "allowedRoles = [''customer'', ''manager'']"

definition register_controller ::
  "deps \<Rightarrow> env \<Rightarrow> store \<Rightarrow> string \<Rightarrow> string \<Rightarrow> string \<Rightarrow> string option \<Rightarrow> string option \<Rightarrow>
   (error + public_user) \<times> store" where
  "register_controller d e st em password fullName ph r =
     (let userRole = (case r of
                        None \<Rightarrow> ''customer''
                      | Some x \<Rightarrow> if x \<in> set allowedRoles then x else ''customer'')
      in register d e st em password fullName ph (Some userRole))"

text \<open>
  The handler of login reads \<open>identifier\<close> and \<open>password\<close> from the body and calls the
  service with \<open>{ identifier, password }\<close>: an object with no \<open>email\<close>.
\<close>

definition login_controller ::
  "deps \<Rightarrow> env \<Rightarrow> store \<Rightarrow> credentials \<Rightarrow> (error + login_result) \<times> store" where
  "login_controller d e st body =
     login d e st \<lparr> cred_identifier = cred_identifier body, cred_email = None,
                    cred_password = cred_password body \<rparr>"

section \<open>Collaborators and stores for concrete runs\<close>

text \<open>
  A small instance of the collaborators, to run the model on concrete inputs: a
  lowercasing of the ASCII letters and of the accented Latin capitals (U+00C0 to U+00DE
  but the sign U+00D7, in UTF-8 the byte \<open>0xC3\<close> and one of \<open>0x80\<close> to \<open>0x9E\<close>), a
  hasher whose digests verify exactly the password they were made from, a token digest,
  and a verifier of assertions that reads the assertion as \<open>sub:email\<close>.
\<close>

definition lower_char :: "char \<Rightarrow> char" where
  "lower_char c =
     (let n = (of_char c :: nat) in if 65 \<le> n \<and> n \<le> 90 then char_of (n + 32) else c)"

fun example_toLowerCase :: "string \<Rightarrow> string" where
  "example_toLowerCase [] = []"
| "example_toLowerCase [c] = [lower_char c]"
| "example_toLowerCase (c # c2 # cs) =
     (if (of_char c :: nat) = 195 \<and> 128 \<le> (of_char c2 :: nat) \<and> (of_char c2 :: nat) \<le> 158
         \<and> (of_char c2 :: nat) \<noteq> 151
      then c # char_of ((of_char c2 :: nat) + 32) # example_toLowerCase cs
      else lower_char c # example_toLowerCase (c2 # cs))"

definition example_deps :: deps where
  "example_deps =
     \<lparr> toLowerCase = example_toLowerCase,
       argon2_hash = (\<lambda>salt pw. salt @ ''$'' @ pw),
       argon2_verify = (\<lambda>digest pw. Inr (drop (length digest - length pw - 1) digest = ''$'' @ pw)),
       hashToken = (\<lambda>t. ''h('' @ t @ '')''),
       jwt_sign = (\<lambda>(i, em, r, tenantId). ''jwt:'' @ em),
       verifyIdToken = (\<lambda>idToken clientId.
          if idToken = ''bad'' then None
          else Some (Some \<lparr> sub = takeWhile (\<lambda>c. c \<noteq> CHR '':'') idToken,
                            payload_email = Some (drop 1 (dropWhile (\<lambda>c. c \<noteq> CHR '':'') idToken)),
                            name = None, picture = Some ''pic.png'' \<rparr>)),
       google_clientId = Some ''client'',
       refreshExpiresIn = 1000 \<rparr>"

definition example_env :: env where
  "example_env = \<lparr> now = 5000, rand_salt = ''s'', rand_token = ''tok'' \<rparr>"

definition empty_store :: store where
  "empty_store = \<lparr> users = [], refresh_tokens = [], user_seq = 1, token_seq = 1 \<rparr>"

definition ann_registered :: store where
  "ann_registered =
     snd (register_controller example_deps example_env empty_store
            ''Ann@X.co'' ''password1'' ''Ann'' None None)"

text \<open>Two users and five refresh tokens: active, expired, revoked, and one that expires now.\<close>

definition ann :: user where
  "ann = \<lparr> uid = 1, email = ''ann@x.co'', password_hash = Some ''s$password1'',
           full_name = ''Ann'', phone = None, role = ''customer'', tenant_id = None,
           is_verified = False, google_id = None, avatar_url = Some ''old.png'',
           created_at = 1000 \<rparr>"

definition bob :: user where
  "bob = \<lparr> uid = 2, email = ''bob@x.co'', password_hash = Some ''s$password2'',
           full_name = ''Bob'', phone = None, role = ''manager'', tenant_id = Some 7,
           is_verified = True, google_id = None, avatar_url = None, created_at = 1000 \<rparr>"

definition token_row :: "nat \<Rightarrow> nat \<Rightarrow> string \<Rightarrow> int \<Rightarrow> bool \<Rightarrow> refresh_token" where
  "token_row k owner h ex rv =
     \<lparr> rtid = k, user_id = owner, token_hash = h, expires_at = ex, is_revoked = rv \<rparr>"

definition sessions :: store where
  "sessions =
     \<lparr> users = [ann, bob],
       refresh_tokens =
         [token_row 1 1 ''h(tokA)'' 9000 False,
          token_row 2 1 ''h(tokB)'' 100 False,
          token_row 3 2 ''h(tokC)'' 9000 False,
          token_row 4 2 ''h(tokD)'' 100 True,
          token_row 5 2 ''h(tokE)'' 5000 False],
       user_seq = 3, token_seq = 6 \<rparr>"

text \<open>An account made by Google sign-in alone: it has no password hash.\<close>

definition gil_google_only :: store where
  "gil_google_only = snd (googleSignIn example_deps example_env empty_store ''g7:gil@x.co'')"


section \<open>Lists and lookups\<close>

lemma find_append_Some: "find P xs = None \<Longrightarrow> P y \<Longrightarrow> find P (xs @ [y]) = Some y"
  by (induction xs) (auto split: if_splits)


lemma find_Some_set: "find P xs = Some x \<Longrightarrow> x \<in> set xs \<and> P x"
  by (induction xs) (auto split: if_splits)


lemma find_filter_Nil: "filter P xs = [] \<Longrightarrow> find P xs = None"
  by (induction xs) (auto split: if_splits)

section \<open>Columns\<close>



lemma varchar_too_long: "varchar n s = Inl err \<Longrightarrow> err = StringTooLong"
  by (auto simp: varchar_def split: if_splits)

lemma varchar_opt_too_long: "varchar_opt n x = Inl err \<Longrightarrow> err = StringTooLong"
  by (auto simp: varchar_opt_def split: option.splits sum.splits dest: varchar_too_long)

section \<open>Registration\<close>


text \<open>What \<open>register\<close> returns, through \<open>findByEmail\<close> and \<open>create\<close>.\<close>

lemma register_result:
  "register d e st em password fullName ph r =
     (if find (\<lambda>u. email u = toLowerCase d em) (users st) \<noteq> None then (Inl AccountExists, st)
      else if phone_taken (users st) (or_else ph None) then (Inl UniqueViolation, st)
      else
        (Inr \<lparr> pu_id = user_seq st, pu_email = toLowerCase d em, pu_fullName = fullName,
               pu_role = (case r of None \<Rightarrow> ''customer'' | Some x \<Rightarrow> x) \<rparr>,
         st\<lparr> users := users st @
                [\<lparr> uid = user_seq st, email = toLowerCase d em,
                   password_hash = Some (argon2_hash d (rand_salt e) password),
                   full_name = fullName, phone = or_else ph None,
                   role = (case r of None \<Rightarrow> ''customer'' | Some x \<Rightarrow> x),
                   tenant_id = None,
                   is_verified = ((case r of None \<Rightarrow> ''customer'' | Some x \<Rightarrow> x) = ''super_admin''),
                   google_id = None, avatar_url = None, created_at = now e \<rparr>],
             user_seq := Suc (user_seq st) \<rparr>))"
  by (auto simp: register_def findByEmail_def create_def varchar_opt_def Let_def
                 google_id_taken_def truthy_def
           split: option.splits)

lemma register_ok:
  assumes "register d e st em password fullName ph r = (Inr v, st1)"
  shows "\<exists>u. users st1 = users st @ [u] \<and> email u = toLowerCase d em
          \<and> role u = (case r of None \<Rightarrow> ''customer'' | Some x \<Rightarrow> x)
          \<and> password_hash u = Some (argon2_hash d (rand_salt e) password)
          \<and> find (\<lambda>u. email u = toLowerCase d em) (users st) = None
          \<and> pu_role v = role u \<and> pu_email v = email u
          \<and> refresh_tokens st1 = refresh_tokens st"
  using assms unfolding register_result by (auto split: if_splits)

lemma register_error:
  assumes "register d e st em password fullName ph r = (Inl err, st1)"
  shows "st1 = st \<and>
         (err = UniqueViolation \<or>
          err = AccountExists \<and> (\<exists>u. find (\<lambda>u. email u = toLowerCase d em) (users st) = Some u))"
  using assms unfolding register_result by (auto split: if_splits)

lemma register_stores_hash:
  assumes "register d e st em password fullName ph r = (Inr v, st1)"
  shows "\<exists>u. findByEmail d st1 (Some em) = Inr (Some u) \<and> email u = toLowerCase d em
           \<and> password_hash u = Some (argon2_hash d (rand_salt e) password)"
proof -
  from register_ok [OF assms] obtain u where
    u: "users st1 = users st @ [u]" "email u = toLowerCase d em"
       "password_hash u = Some (argon2_hash d (rand_salt e) password)"
       "find (\<lambda>u. email u = toLowerCase d em) (users st) = None"
    by (elim exE conjE) (rule that)
  have "findByEmail d st1 (Some em) = Inr (Some u)"
    using u by (simp add: findByEmail_def find_append_Some)
  with u show ?thesis by (intro exI [of _ u] conjI)
qed

text \<open>
  C9: a second \<open>register\<close> with the same email in any letter case fails with
  AccountExists (the \<open>ConflictError\<close>) and leaves the store as it was, so it creates no
  user record; the email is registered in that store. "The same email in any case" is
  what the code compares: equality of the two emails after \<open>toLowerCase\<close>, whatever
  letters they have. The other arguments and the clock of the second call are arbitrary.
  The first call is one that registered the email or found it registered: not one the
  store rejected for a phone number another user has.
\<close>

theorem register_twice_AccountExists:
  assumes "register d e st em password fullName ph r = (res, st1)"
    and "res \<noteq> Inl UniqueViolation"
    and "toLowerCase d em2 = toLowerCase d em"
  shows "register d e2 st1 em2 password2 fullName2 ph2 r2 = (Inl AccountExists, st1)
         \<and> (\<exists>u \<in> set (users st1). email u = toLowerCase d em)"
proof -
  have "\<exists>u. find (\<lambda>u. email u = toLowerCase d em) (users st1) = Some u"
  proof (cases res)
    case (Inr v)
    with assms(1) have "register d e st em password fullName ph r = (Inr v, st1)"
      by simp
    from register_ok [OF this] obtain u where
      u: "users st1 = users st @ [u]" "email u = toLowerCase d em"
         "find (\<lambda>u. email u = toLowerCase d em) (users st) = None"
      by (elim exE conjE) (rule that)
    then have "find (\<lambda>u. email u = toLowerCase d em) (users st1) = Some u"
      by (simp add: find_append_Some)
    then show ?thesis ..
  next
    case (Inl err)
    with assms(1) have "register d e st em password fullName ph r = (Inl err, st1)"
      by simp
    from register_error [OF this] Inl assms(2) show ?thesis
      by auto
  qed
  then obtain u where u: "find (\<lambda>u. email u = toLowerCase d em) (users st1) = Some u" ..
  have "register d e2 st1 em2 password2 fullName2 ph2 r2 = (Inl AccountExists, st1)"
    unfolding register_result using u assms(3) by simp
  moreover have "\<exists>u \<in> set (users st1). email u = toLowerCase d em"
    using find_Some_set [OF u] by blast
  ultimately show ?thesis ..
qed

theorem register_twice_AccountExists_witness:
  "register example_deps (example_env\<lparr> now := 7000 \<rparr>)
     (snd (register example_deps example_env empty_store
             (CHR 0xC3 # CHR 0x89 # ''@X.co'') ''password1'' ''Eve'' None None))
     (CHR 0xC3 # CHR 0xA9 # ''@x.CO'') ''password2'' ''Eva'' (Some ''+1 555 0100'') (Some ''manager'')
   = (Inl AccountExists,
      \<lparr> users = [\<lparr> uid = 1, email = CHR 0xC3 # CHR 0xA9 # ''@x.co'',
                    password_hash = Some ''s$password1'',
                    full_name = ''Eve'', phone = None, role = ''customer'', tenant_id = None,
                    is_verified = False, google_id = None, avatar_url = None,
                    created_at = 5000 \<rparr>],
        refresh_tokens = [], user_seq = 2, token_seq = 1 \<rparr>)"
proof -
  have first:
    "register example_deps example_env empty_store
       (CHR 0xC3 # CHR 0x89 # ''@X.co'') ''password1'' ''Eve'' None None
     = (Inr \<lparr> pu_id = 1, pu_email = CHR 0xC3 # CHR 0xA9 # ''@x.co'', pu_fullName = ''Eve'',
              pu_role = ''customer'' \<rparr>,
        \<lparr> users = [\<lparr> uid = 1, email = CHR 0xC3 # CHR 0xA9 # ''@x.co'',
                      password_hash = Some ''s$password1'',
                      full_name = ''Eve'', phone = None, role = ''customer'',
                      tenant_id = None, is_verified = False, google_id = None,
                      avatar_url = None, created_at = 5000 \<rparr>],
          refresh_tokens = [], user_seq = 2, token_seq = 1 \<rparr>)"
    by code_simp
  have same: "toLowerCase example_deps (CHR 0xC3 # CHR 0xA9 # ''@x.CO'')
              = toLowerCase example_deps (CHR 0xC3 # CHR 0x89 # ''@X.co'')"
    by code_simp
  have accepted:
    "Inr \<lparr> pu_id = 1, pu_email = CHR 0xC3 # CHR 0xA9 # ''@x.co'', pu_fullName = ''Eve'',
           pu_role = ''customer'' \<rparr>
     \<noteq> (Inl UniqueViolation :: error + public_user)"
    by simp
  show ?thesis
    using register_twice_AccountExists [OF first accepted same, THEN conjunct1]
    by (simp add: first)
qed

text \<open>
  C10: what the handler of register returns, for every request. When the email is not
  registered and the phone is free, it creates one user, and the role of that user and
  of the returned view is the requested role if that is customer or manager, and
  customer for every other request (another role, or none): never super_admin, and
  \<open>is_verified\<close> is false. Otherwise it fails and creates nothing.
\<close>

theorem register_controller_role:
  "\<exists>userRole.
     (userRole = ''customer'' \<or> userRole = ''manager'')
     \<and> (case r of
           None \<Rightarrow> userRole = ''customer''
         | Some x \<Rightarrow> userRole = (if x \<in> set allowedRoles then x else ''customer''))
     \<and> register_controller d e st em password fullName ph r =
         (if find (\<lambda>u. email u = toLowerCase d em) (users st) \<noteq> None
          then (Inl AccountExists, st)
          else if phone_taken (users st) (or_else ph None) then (Inl UniqueViolation, st)
          else
            (Inr \<lparr> pu_id = user_seq st, pu_email = toLowerCase d em, pu_fullName = fullName,
                   pu_role = userRole \<rparr>,
             st\<lparr> users := users st @
                    [\<lparr> uid = user_seq st, email = toLowerCase d em,
                       password_hash = Some (argon2_hash d (rand_salt e) password),
                       full_name = fullName, phone = or_else ph None, role = userRole,
                       tenant_id = None, is_verified = False, google_id = None,
                       avatar_url = None, created_at = now e \<rparr>],
                 user_seq := Suc (user_seq st) \<rparr>))"
proof -
  let ?userRole = "case r of None \<Rightarrow> ''customer''
                   | Some x \<Rightarrow> if x \<in> set allowedRoles then x else ''customer''"
  have allowed: "?userRole = ''customer'' \<or> ?userRole = ''manager''"
    by (cases r) (simp_all add: allowedRoles_def)
  then have plain: "?userRole \<noteq> ''super_admin''"
    by auto
  have shape: "(case r of
           None \<Rightarrow> ?userRole = ''customer''
         | Some x \<Rightarrow> ?userRole = (if x \<in> set allowedRoles then x else ''customer''))"
    by (cases r) simp_all
  have run: "register_controller d e st em password fullName ph r
             = register d e st em password fullName ph (Some ?userRole)"
    by (simp add: register_controller_def)
  show ?thesis
    apply (rule exI [of _ ?userRole])
    apply (intro conjI allowed shape)
    unfolding run register_result
    using plain by simp
qed

theorem register_controller_role_witness:
  "register_controller example_deps example_env empty_store
     ''root@x.co'' ''password1'' ''Root'' None (Some ''super_admin'')
   = (Inr \<lparr> pu_id = 1, pu_email = ''root@x.co'', pu_fullName = ''Root'',
            pu_role = ''customer'' \<rparr>,
      \<lparr> users = [\<lparr> uid = 1, email = ''root@x.co'',
                    password_hash = Some ''s$password1'', full_name = ''Root'',
                    phone = None, role = ''customer'', tenant_id = None,
                    is_verified = False, google_id = None, avatar_url = None,
                    created_at = 5000 \<rparr>],
        refresh_tokens = [], user_seq = 2, token_seq = 1 \<rparr>)"
proof -
  from register_controller_role
    [of "Some ''super_admin''" example_deps example_env empty_store
        "''root@x.co''" "''password1''" "''Root''" None]
  obtain userRole where
    shape: "case Some ''super_admin'' of
              None \<Rightarrow> userRole = ''customer''
            | Some x \<Rightarrow> userRole = (if x \<in> set allowedRoles then x else ''customer'')"
    and run: "register_controller example_deps example_env empty_store
       ''root@x.co'' ''password1'' ''Root'' None (Some ''super_admin'') =
         (if find (\<lambda>u. email u = toLowerCase example_deps ''root@x.co'') (users empty_store) \<noteq> None
          then (Inl AccountExists, empty_store)
          else if phone_taken (users empty_store) (or_else None None)
          then (Inl UniqueViolation, empty_store)
          else
            (Inr \<lparr> pu_id = user_seq empty_store, pu_email = toLowerCase example_deps ''root@x.co'',
                   pu_fullName = ''Root'', pu_role = userRole \<rparr>,
             empty_store\<lparr> users := users empty_store @
                    [\<lparr> uid = user_seq empty_store, email = toLowerCase example_deps ''root@x.co'',
                       password_hash = Some (argon2_hash example_deps (rand_salt example_env) ''password1''),
                       full_name = ''Root'', phone = or_else None None, role = userRole,
                       tenant_id = None, is_verified = False, google_id = None,
                       avatar_url = None, created_at = now example_env \<rparr>],
                 user_seq := Suc (user_seq empty_store) \<rparr>))"
    by (elim exE conjE) (rule that)
  have role: "userRole = ''customer''"
    using shape by (simp add: allowedRoles_def)
  have lower: "toLowerCase example_deps ''root@x.co'' = ''root@x.co''"
    by code_simp
  have hash: "argon2_hash example_deps (rand_salt example_env) ''password1'' = ''s$password1''"
    by code_simp
  show ?thesis
    unfolding run role lower hash
    by (simp add: empty_store_def example_env_def phone_taken_def or_else_def truthy_def)
qed

section \<open>Login\<close>

lemma login_controller_TypeError:
  "login_controller d e st body = (Inl TypeError, st)"
  by (simp add: login_controller_def login_def findByEmail_def)

text \<open>
  C1: register, then the handler of login with the same credentials, in the body the
  route's \<open>loginSchema\<close> asks for (\<open>email\<close> and \<open>password\<close>). The registration
  succeeds, and the login does not: the handler calls the service with
  \<open>{ identifier, password }\<close>, the service reads \<open>email\<close> from that object, and
  \<open>findByEmail(undefined)\<close> throws a \<open>TypeError\<close>. This is so for every body
  (\<open>login_controller_TypeError\<close>); here it is run on a registered account.
\<close>

theorem register_then_login_controller_fails:
  "fst (register_controller example_deps example_env empty_store
          ''Ann@X.co'' ''password1'' ''Ann'' None None)
     = Inr \<lparr> pu_id = 1, pu_email = ''ann@x.co'', pu_fullName = ''Ann'',
             pu_role = ''customer'' \<rparr>
   \<and> login_controller example_deps example_env ann_registered
       \<lparr> cred_identifier = None, cred_email = Some ''Ann@X.co'',
         cred_password = ''password1'' \<rparr>
     = (Inl TypeError, ann_registered)"
proof -
  have "fst (register_controller example_deps example_env empty_store
               ''Ann@X.co'' ''password1'' ''Ann'' None None)
        = Inr \<lparr> pu_id = 1, pu_email = ''ann@x.co'', pu_fullName = ''Ann'',
                pu_role = ''customer'' \<rparr>"
    by code_simp
  then show ?thesis
    by (simp add: login_controller_TypeError)
qed

text \<open>
  The service alone does log a registered user in, when it is called with the email and
  the hasher verifies the digest it made: the failure of C1 is the handler's.
\<close>

lemma register_then_login_service:
  assumes "register d e st em password fullName ph r = (Inr v, st1)"
    and "argon2_verify d (argon2_hash d (rand_salt e) password) password = Inr True"
  shows "\<exists>res st2. login d e2 st1 \<lparr> cred_identifier = x, cred_email = Some em,
                                     cred_password = password \<rparr> = (Inr res, st2)
           \<and> pu_email (lr_user res) = toLowerCase d em"
proof -
  from register_stores_hash [OF assms(1)] obtain u where
    u: "findByEmail d st1 (Some em) = Inr (Some u)" "email u = toLowerCase d em"
       "password_hash u = Some (argon2_hash d (rand_salt e) password)"
    by (elim exE conjE) (rule that)
  obtain rt rtHash ex where g: "generateRefreshToken d e2 = (rt, rtHash, ex)"
    by (cases "generateRefreshToken d e2") auto
  show ?thesis
    using u assms(2) g by (simp add: login_def argon2_verify_js_def session_of_def)
qed

text \<open>
  Login by the service, called with an email: an unknown email and a password that does
  not verify both fail with InvalidCredentials; an account with no password hash makes
  \<open>argon2.verify(null, password)\<close> throw.
\<close>

lemma login_unknown_email:
  "findByEmail d st (cred_email args) = Inr None \<Longrightarrow> login d e st args = (Inl InvalidCredentials, st)"
  by (simp add: login_def)

lemma login_wrong_password:
  assumes "findByEmail d st (cred_email args) = Inr (Some u)" and "password_hash u = Some h"
    and "argon2_verify d h (cred_password args) = Inr False"
  shows "login d e st args = (Inl InvalidCredentials, st)"
  using assms by (simp add: login_def argon2_verify_js_def)

lemma login_no_password_hash:
  assumes "findByEmail d st (cred_email args) = Inr (Some u)" and "password_hash u = None"
  shows "login d e st args = (Inl TypeError, st)"
  using assms by (simp add: login_def argon2_verify_js_def)

text \<open>
  C2: of the three cases, the account with no password hash does not fail with
  InvalidCredentials. Google sign-in on the empty store creates such an account, and a
  login with its email fails with the \<open>TypeError\<close> of \<open>argon2.verify\<close>
  (\<open>login_no_password_hash\<close> for every such account). \<open>changePassword\<close> tests
  \<open>if (user.password_hash)\<close> before it verifies; \<open>login\<close> does not.
\<close>

theorem login_google_only_TypeError:
  "map email (users gil_google_only) = [''gil@x.co'']
   \<and> map password_hash (users gil_google_only) = [None]
   \<and> login example_deps example_env gil_google_only
        \<lparr> cred_identifier = None, cred_email = Some ''gil@x.co'', cred_password = ''password1'' \<rparr>
      = (Inl TypeError, gil_google_only)"
  by code_simp

section \<open>Refresh, logout\<close>

lemma findRefreshToken_no_record:
  assumes "\<forall>rt \<in> set (refresh_tokens st). token_hash rt \<noteq> h"
  shows "findRefreshToken st h = None"
proof -
  have "filter (\<lambda>rt. token_hash rt = h) (refresh_tokens st) = []"
    using assms by (simp add: filter_empty_conv)
  then show ?thesis
    by (simp add: findRefreshToken_def)
qed

text \<open>
  C3, as the code has it: \<open>refreshAccessToken\<close> fails with Unauthorized when the
  token is missing (\<open>undefined\<close> or empty), with InvalidToken when the lookup by
  the hash finds nothing (so when no record has the hash), with TokenRevoked when the matching record is revoked
  (whatever its expiry), and with TokenExpired when the record is not revoked and its
  expiry is before now. The test is \<open>expires_at < now\<close>: at the instant
  \<open>now = expires_at\<close> the token is still accepted. Each failure leaves the store as it
  was.
\<close>

theorem refreshAccessToken_errors:
  "(tok = None \<or> tok = Some [] \<longrightarrow> refreshAccessToken d e st tok = (Inl Unauthorized, st))
   \<and> (\<forall>t. tok = Some t \<and> t \<noteq> [] \<longrightarrow>
        (findRefreshToken st (hashToken d t) = None \<longrightarrow>
           refreshAccessToken d e st tok = (Inl InvalidToken, st))
        \<and> (\<forall>rt u. findRefreshToken st (hashToken d t) = Some (rt, u) \<longrightarrow>
             (is_revoked rt \<longrightarrow> refreshAccessToken d e st tok = (Inl TokenRevoked, st))
             \<and> (\<not> is_revoked rt \<and> expires_at rt < now e \<longrightarrow>
                  refreshAccessToken d e st tok = (Inl TokenExpired, st))
             \<and> (\<not> is_revoked rt \<and> now e \<le> expires_at rt \<longrightarrow>
                  (\<exists>r. refreshAccessToken d e st tok = (Inr r, st)))))
   \<and> (\<forall>t. tok = Some t \<and> t \<noteq> []
            \<and> (\<forall>rt \<in> set (refresh_tokens st). token_hash rt \<noteq> hashToken d t) \<longrightarrow>
          refreshAccessToken d e st tok = (Inl InvalidToken, st))"
proof (intro conjI)
  show "tok = None \<or> tok = Some [] \<longrightarrow> refreshAccessToken d e st tok = (Inl Unauthorized, st)"
    by (auto simp: refreshAccessToken_def)
  show "\<forall>t. tok = Some t \<and> t \<noteq> [] \<longrightarrow>
        (findRefreshToken st (hashToken d t) = None \<longrightarrow>
           refreshAccessToken d e st tok = (Inl InvalidToken, st))
        \<and> (\<forall>rt u. findRefreshToken st (hashToken d t) = Some (rt, u) \<longrightarrow>
             (is_revoked rt \<longrightarrow> refreshAccessToken d e st tok = (Inl TokenRevoked, st))
             \<and> (\<not> is_revoked rt \<and> expires_at rt < now e \<longrightarrow>
                  refreshAccessToken d e st tok = (Inl TokenExpired, st))
             \<and> (\<not> is_revoked rt \<and> now e \<le> expires_at rt \<longrightarrow>
                  (\<exists>r. refreshAccessToken d e st tok = (Inr r, st))))"
    by (auto simp: refreshAccessToken_def)
  show "\<forall>t. tok = Some t \<and> t \<noteq> []
            \<and> (\<forall>rt \<in> set (refresh_tokens st). token_hash rt \<noteq> hashToken d t) \<longrightarrow>
          refreshAccessToken d e st tok = (Inl InvalidToken, st)"
    by (auto simp: refreshAccessToken_def findRefreshToken_no_record)
qed

lemma refresh_success:
  "refreshAccessToken d e st tok = (Inr r, st') \<Longrightarrow>
     st' = st \<and> (\<exists>t rt u. tok = Some t \<and> t \<noteq> [] \<and>
        findRefreshToken st (hashToken d t) = Some (rt, u) \<and> \<not> is_revoked rt \<and>
        now e \<le> expires_at rt)"
  by (auto simp: refreshAccessToken_def split: option.splits if_splits)

text \<open>
  C6: a successful refresh returns the store it was given, so it writes nothing to the
  refresh tokens, and the same token is accepted again at every time up to the record's
  expiry, on the store the refresh left (no revocation in between).
\<close>

theorem refresh_not_rotated:
  assumes "refreshAccessToken d e st tok = (Inr r, st')"
  shows "st' = st \<and>
         (\<exists>t rt u. tok = Some t \<and> findRefreshToken st (hashToken d t) = Some (rt, u) \<and>
            (\<forall>e'. now e' \<le> expires_at rt \<longrightarrow>
               (\<exists>r'. refreshAccessToken d e' st' tok = (Inr r', st'))))"
proof -
  from refresh_success [OF assms] obtain t rt u where
    h: "st' = st" "tok = Some t" "t \<noteq> []"
       "findRefreshToken st (hashToken d t) = Some (rt, u)" "\<not> is_revoked rt"
    by blast
  have "\<exists>r'. refreshAccessToken d e' st' tok = (Inr r', st')" if "now e' \<le> expires_at rt" for e'
    using h that by (simp add: refreshAccessToken_def)
  with h show ?thesis by blast
qed

lemma concat_map_pairs:
  assumes "\<And>x. g (f x) = map (\<lambda>(a, b). (f a, b)) (g x)"
  shows "concat (map g (map f xs)) = map (\<lambda>(a, b). (f a, b)) (concat (map g xs))"
proof (induction xs)
  case Nil
  show ?case by simp
next
  case (Cons x xs)
  have "concat (map g (map f (x # xs))) = g (f x) @ concat (map g (map f xs))"
    by simp
  also have "\<dots> = map (\<lambda>(a, b). (f a, b)) (g x) @ map (\<lambda>(a, b). (f a, b)) (concat (map g xs))"
    by (simp only: assms Cons.IH)
  finally show ?case by simp
qed

lemma findRefreshToken_revokeAll:
  "findRefreshToken (revokeAllUserTokens st i) h =
     map_option (\<lambda>(rt, u). (if user_id rt = i then rt\<lparr> is_revoked := True \<rparr> else rt, u))
       (findRefreshToken st h)"
proof -
  let ?f = "\<lambda>rt. if user_id rt = i then rt\<lparr> is_revoked := True \<rparr> else rt"
  let ?g = "\<lambda>rt. map (\<lambda>u. (rt, u)) (filter (\<lambda>u. uid u = user_id rt) (users st))"
  let ?P = "\<lambda>rt. token_hash rt = h"
  define J where "J = concat (map ?g (filter ?P (refresh_tokens st)))"
  have 1: "filter ?P (map ?f (refresh_tokens st)) = map ?f (filter ?P (refresh_tokens st))"
    by (induction "refresh_tokens st") (auto simp: filter_map o_def)
  have 2: "?g (?f x) = map (\<lambda>(a, b). (?f a, b)) (?g x)" for x
    by (simp add: o_def)
  have K: "concat (map ?g (filter ?P (map ?f (refresh_tokens st)))) = map (\<lambda>(a, b). (?f a, b)) J"
    unfolding J_def 1 by (rule concat_map_pairs) (rule 2)
  have u: "users (revokeAllUserTokens st i) = users st"
    and r: "refresh_tokens (revokeAllUserTokens st i) = map ?f (refresh_tokens st)"
    by (simp_all add: revokeAllUserTokens_def)
  have L: "findRefreshToken st h = (case J of [] \<Rightarrow> None | row # _ \<Rightarrow> Some row)"
    by (simp only: findRefreshToken_def J_def)
  have R: "findRefreshToken (revokeAllUserTokens st i) h
           = (case map (\<lambda>(a, b). (?f a, b)) J of [] \<Rightarrow> None | row # _ \<Rightarrow> Some row)"
    unfolding findRefreshToken_def u r K ..
  show ?thesis
    unfolding L R by (cases J) auto
qed

lemma logoutAll_store:
  "users (logoutAll st i) = users st"
  "refresh_tokens (logoutAll st i)
   = map (\<lambda>rt. if user_id rt = i then rt\<lparr> is_revoked := True \<rparr> else rt) (refresh_tokens st)"
  by (simp_all add: logoutAll_def revokeAllUserTokens_def)

lemma refresh_after_logoutAll_owner:
  assumes "t \<noteq> []" "findRefreshToken st (hashToken d t) = Some (rt, u)" "user_id rt = i"
  shows "refreshAccessToken d e (logoutAll st i) (Some t) = (Inl TokenRevoked, logoutAll st i)"
proof -
  have "findRefreshToken (logoutAll st i) (hashToken d t) = Some (rt\<lparr> is_revoked := True \<rparr>, u)"
    using assms by (simp add: logoutAll_def findRefreshToken_revokeAll)
  then show ?thesis
    using assms(1) by (simp add: refreshAccessToken_def)
qed

lemma refresh_after_logoutAll_other:
  assumes "findRefreshToken st (hashToken d t) = Some (rt, u)" "user_id rt \<noteq> i"
  shows "refreshAccessToken d e (logoutAll st i) (Some t)
         = (fst (refreshAccessToken d e st (Some t)), logoutAll st i)"
proof -
  have "findRefreshToken (logoutAll st i) (hashToken d t) = Some (rt, u)"
    using assms by (simp add: logoutAll_def findRefreshToken_revokeAll)
  then show ?thesis
    using assms(1) by (simp add: refreshAccessToken_def)
qed

lemma revoke_if_owned:
  "user_id (if user_id x = i then x\<lparr> is_revoked := True \<rparr> else x) = i \<Longrightarrow>
   is_revoked (if user_id x = i then x\<lparr> is_revoked := True \<rparr> else x)"
  by (cases "user_id x = i") simp_all

text \<open>
  C7: after \<open>logoutAll\<close> for a user, every refresh-token record of that user is
  revoked; the users and the records of every other user are unchanged, position by
  position; a refresh with a token whose record belongs to the user fails with
  TokenRevoked, whatever the record's expiry; and a refresh with a token of another user
  gives what it gave before.
\<close>

theorem logoutAll_revokes:
  "(\<forall>rt \<in> set (refresh_tokens (logoutAll st i)). user_id rt = i \<longrightarrow> is_revoked rt)
   \<and> users (logoutAll st i) = users st
   \<and> length (refresh_tokens (logoutAll st i)) = length (refresh_tokens st)
   \<and> (\<forall>k < length (refresh_tokens st). user_id (refresh_tokens st ! k) \<noteq> i \<longrightarrow>
         refresh_tokens (logoutAll st i) ! k = refresh_tokens st ! k)
   \<and> (\<forall>t rt u. t \<noteq> [] \<and> findRefreshToken st (hashToken d t) = Some (rt, u) \<and> user_id rt = i \<longrightarrow>
         refreshAccessToken d e (logoutAll st i) (Some t) = (Inl TokenRevoked, logoutAll st i))
   \<and> (\<forall>t rt u. findRefreshToken st (hashToken d t) = Some (rt, u) \<and> user_id rt \<noteq> i \<longrightarrow>
         refreshAccessToken d e (logoutAll st i) (Some t)
         = (fst (refreshAccessToken d e st (Some t)), logoutAll st i))"
proof (intro conjI)
  show "\<forall>rt \<in> set (refresh_tokens (logoutAll st i)). user_id rt = i \<longrightarrow> is_revoked rt"
  proof (intro ballI impI)
    fix rt assume a: "rt \<in> set (refresh_tokens (logoutAll st i))" and b: "user_id rt = i"
    from a have "rt \<in> (\<lambda>x. if user_id x = i then x\<lparr> is_revoked := True \<rparr> else x)
                        ` set (refresh_tokens st)"
      unfolding logoutAll_store set_map .
    then obtain x where x: "rt = (if user_id x = i then x\<lparr> is_revoked := True \<rparr> else x)"
      by (rule imageE)
    show "is_revoked rt"
      using b unfolding x by (rule revoke_if_owned)
  qed
  show "users (logoutAll st i) = users st"
    by (simp add: logoutAll_store)
  show "length (refresh_tokens (logoutAll st i)) = length (refresh_tokens st)"
    by (simp add: logoutAll_store)
  show "\<forall>k < length (refresh_tokens st). user_id (refresh_tokens st ! k) \<noteq> i \<longrightarrow>
         refresh_tokens (logoutAll st i) ! k = refresh_tokens st ! k"
    by (simp add: logoutAll_store)
  show "\<forall>t rt u. t \<noteq> [] \<and> findRefreshToken st (hashToken d t) = Some (rt, u) \<and> user_id rt = i \<longrightarrow>
         refreshAccessToken d e (logoutAll st i) (Some t) = (Inl TokenRevoked, logoutAll st i)"
    by (intro allI impI, elim conjE) (rule refresh_after_logoutAll_owner)
  show "\<forall>t rt u. findRefreshToken st (hashToken d t) = Some (rt, u) \<and> user_id rt \<noteq> i \<longrightarrow>
         refreshAccessToken d e (logoutAll st i) (Some t)
         = (fst (refreshAccessToken d e st (Some t)), logoutAll st i)"
    by (intro allI impI, elim conjE) (rule refresh_after_logoutAll_other)
qed

lemma sessions_lookups:
  "findRefreshToken sessions (hashToken example_deps ''tokA'') = Some (token_row 1 1 ''h(tokA)'' 9000 False, ann)"
  "findRefreshToken sessions (hashToken example_deps ''tokB'') = Some (token_row 2 1 ''h(tokB)'' 100 False, ann)"
  "findRefreshToken sessions (hashToken example_deps ''tokC'') = Some (token_row 3 2 ''h(tokC)'' 9000 False, bob)"
  "findRefreshToken sessions (hashToken example_deps ''tokD'') = Some (token_row 4 2 ''h(tokD)'' 100 True, bob)"
  "findRefreshToken sessions (hashToken example_deps ''tokE'') = Some (token_row 5 2 ''h(tokE)'' 5000 False, bob)"
  "findRefreshToken sessions (hashToken example_deps ''nope'') = None"
  by code_simp+

theorem logoutAll_revokes_witness:
  "refreshAccessToken example_deps example_env (logoutAll sessions 1) (Some ''tokA'')
     = (Inl TokenRevoked, logoutAll sessions 1)
   \<and> refreshAccessToken example_deps example_env (logoutAll sessions 1) (Some ''tokB'')
     = (Inl TokenRevoked, logoutAll sessions 1)
   \<and> fst (refreshAccessToken example_deps example_env (logoutAll sessions 1) (Some ''tokC''))
     = Inr \<lparr> rr_accessToken = ''jwt:bob@x.co'',
             rr_user = \<lparr> pu_id = 2, pu_email = ''bob@x.co'', pu_fullName = ''Bob'',
                         pu_role = ''manager'', su_tenantId = Some 7 \<rparr> \<rparr>"
proof -
  note all = logoutAll_revokes [of sessions 1 example_deps example_env]
  note owner = all [THEN conjunct2, THEN conjunct2, THEN conjunct2, THEN conjunct2,
                    THEN conjunct1, rule_format]
  note other = all [THEN conjunct2, THEN conjunct2, THEN conjunct2, THEN conjunct2,
                    THEN conjunct2, rule_format]
  have a: "refreshAccessToken example_deps example_env (logoutAll sessions 1) (Some ''tokA'')
           = (Inl TokenRevoked, logoutAll sessions 1)"
    by (rule owner [where t = "''tokA''" and rt = "token_row 1 1 ''h(tokA)'' 9000 False" and u = ann])
       (simp add: sessions_lookups token_row_def)
  have b: "refreshAccessToken example_deps example_env (logoutAll sessions 1) (Some ''tokB'')
           = (Inl TokenRevoked, logoutAll sessions 1)"
    by (rule owner [where t = "''tokB''" and rt = "token_row 2 1 ''h(tokB)'' 100 False" and u = ann])
       (simp add: sessions_lookups token_row_def)
  have "refreshAccessToken example_deps example_env (logoutAll sessions 1) (Some ''tokC'')
         = (fst (refreshAccessToken example_deps example_env sessions (Some ''tokC'')),
            logoutAll sessions 1)"
    by (rule other [where t = "''tokC''" and rt = "token_row 3 2 ''h(tokC)'' 9000 False" and u = bob])
       (simp add: sessions_lookups token_row_def)
  moreover have "fst (refreshAccessToken example_deps example_env sessions (Some ''tokC''))
     = Inr \<lparr> rr_accessToken = ''jwt:bob@x.co'',
             rr_user = \<lparr> pu_id = 2, pu_email = ''bob@x.co'', pu_fullName = ''Bob'',
                         pu_role = ''manager'', su_tenantId = Some 7 \<rparr> \<rparr>"
    by code_simp
  ultimately show ?thesis
    using a b by simp
qed

text \<open>
  C3 as stated fails at the boundary: the record of \<open>tokE\<close> is not revoked and
  expires at the very instant of the call, and the refresh succeeds.
\<close>

theorem refresh_boundary_counterexample:
  "findRefreshToken sessions (hashToken example_deps ''tokE'')
     = Some (token_row 5 2 ''h(tokE)'' 5000 False, bob)
   \<and> \<not> is_revoked (token_row 5 2 ''h(tokE)'' 5000 False)
   \<and> now example_env = expires_at (token_row 5 2 ''h(tokE)'' 5000 False)
   \<and> refreshAccessToken example_deps example_env sessions (Some ''tokE'')
       = (Inr \<lparr> rr_accessToken = ''jwt:bob@x.co'',
                rr_user = \<lparr> pu_id = 2, pu_email = ''bob@x.co'', pu_fullName = ''Bob'',
                            pu_role = ''manager'', su_tenantId = Some 7 \<rparr> \<rparr>, sessions)
   \<and> fst (refreshAccessToken example_deps example_env sessions (Some ''tokE'')) \<noteq> Inl TokenExpired"
proof -
  have run: "refreshAccessToken example_deps example_env sessions (Some ''tokE'')
       = (Inr \<lparr> rr_accessToken = ''jwt:bob@x.co'',
                rr_user = \<lparr> pu_id = 2, pu_email = ''bob@x.co'', pu_fullName = ''Bob'',
                            pu_role = ''manager'', su_tenantId = Some 7 \<rparr> \<rparr>, sessions)"
    by code_simp
  show ?thesis
    by (simp add: run sessions_lookups) (simp add: token_row_def example_env_def)
qed

theorem refreshAccessToken_errors_witness:
  "refreshAccessToken example_deps example_env sessions None = (Inl Unauthorized, sessions)
   \<and> refreshAccessToken example_deps example_env sessions (Some []) = (Inl Unauthorized, sessions)
   \<and> refreshAccessToken example_deps example_env sessions (Some ''nope'') = (Inl InvalidToken, sessions)
   \<and> refreshAccessToken example_deps example_env sessions (Some ''tokD'') = (Inl TokenRevoked, sessions)
   \<and> refreshAccessToken example_deps example_env sessions (Some ''tokB'') = (Inl TokenExpired, sessions)
   \<and> (\<exists>r. refreshAccessToken example_deps example_env sessions (Some ''tokA'') = (Inr r, sessions))"
proof -
  note missing = refreshAccessToken_errors [THEN conjunct1, rule_format]
  note given = refreshAccessToken_errors [THEN conjunct2, THEN conjunct1, rule_format]
  note no_record = refreshAccessToken_errors [THEN conjunct2, THEN conjunct2, rule_format]
  note absent = given [THEN conjunct1, rule_format]
  note found = given [THEN conjunct2, rule_format]
  have 1: "refreshAccessToken example_deps example_env sessions None = (Inl Unauthorized, sessions)"
    by (rule missing) simp
  have 2: "refreshAccessToken example_deps example_env sessions (Some []) = (Inl Unauthorized, sessions)"
    by (rule missing) simp
  have 3: "refreshAccessToken example_deps example_env sessions (Some ''nope'') = (Inl InvalidToken, sessions)"
    by (rule absent [where t = "''nope''"]) (simp_all add: sessions_lookups)
  have "\<forall>rt \<in> set (refresh_tokens sessions). token_hash rt \<noteq> hashToken example_deps ''nope''"
    by code_simp
  then have "refreshAccessToken example_deps example_env sessions (Some ''nope'') = (Inl InvalidToken, sessions)"
    by (intro no_record [where t = "''nope''"]) simp
  have 4: "refreshAccessToken example_deps example_env sessions (Some ''tokD'') = (Inl TokenRevoked, sessions)"
    by (rule found [where t = "''tokD''", THEN conjunct1, rule_format])
       (simp_all add: sessions_lookups, simp add: token_row_def)
  have 5: "refreshAccessToken example_deps example_env sessions (Some ''tokB'') = (Inl TokenExpired, sessions)"
    by (rule found [where t = "''tokB''", THEN conjunct2, THEN conjunct1, rule_format])
       (simp_all add: sessions_lookups, simp add: token_row_def example_env_def)
  have 6: "\<exists>r. refreshAccessToken example_deps example_env sessions (Some ''tokA'') = (Inr r, sessions)"
    by (rule found [where t = "''tokA''", THEN conjunct2, THEN conjunct2, rule_format])
       (simp_all add: sessions_lookups, simp add: token_row_def example_env_def)
  from 1 2 3 4 5 6 show ?thesis by (intro conjI)
qed

theorem refresh_not_rotated_witness:
  "\<exists>t rt u. Some ''tokA'' = Some t
      \<and> findRefreshToken sessions (hashToken example_deps t) = Some (rt, u)
      \<and> (\<exists>r'. refreshAccessToken example_deps (example_env\<lparr> now := 9000 \<rparr>) sessions (Some ''tokA'')
                = (Inr r', sessions))"
proof -
  have run: "refreshAccessToken example_deps example_env sessions (Some ''tokA'')
       = (Inr \<lparr> rr_accessToken = ''jwt:ann@x.co'',
                rr_user = \<lparr> pu_id = 1, pu_email = ''ann@x.co'', pu_fullName = ''Ann'',
                            pu_role = ''customer'', su_tenantId = None \<rparr> \<rparr>, sessions)"
    by code_simp
  from refresh_not_rotated [OF run] obtain t rt u where
    h: "Some ''tokA'' = Some t"
       "findRefreshToken sessions (hashToken example_deps t) = Some (rt, u)"
       "\<forall>e'. now e' \<le> expires_at rt \<longrightarrow>
          (\<exists>r'. refreshAccessToken example_deps e' sessions (Some ''tokA'') = (Inr r', sessions))"
    by (elim conjE exE) (rule that)
  from h(1) have t: "t = ''tokA''" by simp
  from h(2) have "expires_at rt = 9000"
    unfolding t sessions_lookups token_row_def by auto
  then have "now (example_env\<lparr> now := 9000 \<rparr>) \<le> expires_at rt" by simp
  with h(3) have again:
    "\<exists>r'. refreshAccessToken example_deps (example_env\<lparr> now := 9000 \<rparr>) sessions (Some ''tokA'')
                = (Inr r', sessions)"
    by (elim allE impE)
  show ?thesis
    by (rule exI [of _ t], rule exI [of _ rt], rule exI [of _ u]) (intro conjI h(1) h(2) again)
qed

section \<open>Google sign-in\<close>
















section \<open>Change of password\<close>

lemma changePassword_unknown_user:
  "findById st i = None \<Longrightarrow> changePassword d e st i cur new = (Inl TypeError, st)"
  by (simp add: changePassword_def)

lemma changePassword_sets_first_password:
  assumes "findById st i = Some u0" and "findByEmail d st (Some (email u0)) = Inr (Some u)"
    and "\<not> truthy (password_hash u)"
  shows "changePassword d e st i cur new
         = (Inr ''Password changed successfully.'',
            updatePassword st i (argon2_hash d (rand_salt e) new))"
  using assms by (simp add: changePassword_def)

lemma changePassword_wrong_current:
  assumes "findById st i = Some u0" and "findByEmail d st (Some (email u0)) = Inr (Some u)"
    and "password_hash u = Some h" and "h \<noteq> []" and "argon2_verify d h c = Inr False"
  shows "changePassword d e st i (Some c) new = (Inl CurrentPasswordIncorrect, st)"
  using assms by (simp add: changePassword_def argon2_verify_js_def truthy_def)

text \<open>
  C5: for a user id that no user has, \<open>changePassword\<close> does not fail with NotFound
  (the \<open>BadRequestError\<close> 'User not found.'): \<open>findById\<close> gives \<open>null\<close>, and
  reading its \<open>.email\<close> throws a \<open>TypeError\<close> before the test \<open>if (!user)\<close> is
  reached (\<open>changePassword_unknown_user\<close> for every store). The other two parts of the
  claim hold: \<open>changePassword_sets_first_password\<close>,
  \<open>changePassword_wrong_current\<close>.
\<close>

theorem changePassword_unknown_user_TypeError:
  "findById sessions 99 = None
   \<and> changePassword example_deps example_env sessions 99 (Some ''password1'') ''newpassword1''
      = (Inl TypeError, sessions)"
  by code_simp

section \<open>What is stored of a refresh token\<close>





























end
